theory Spec2Isabelle
  imports Complex_Main "HOL-Library.Multiset" "HOL-Library.Product_Lexorder"
begin

section \<open>JavaScript values used by the benchmark code\<close>

text \<open>
  Numbers are IEEE doubles in the source; they are modelled as exact reals, so the
  theorems speak about the arithmetic the code writes down, not about rounding error.
  Timestamps returned by \<^verbatim>\<open>performance.now()\<close> are passed in as arguments: every
  function that reads the clock takes the value it would read.
  Strings are sequences of 8-bit code units.
\<close>

text \<open>A value caught by \<^verbatim>\<open>catch (error)\<close>: an \<^verbatim>\<open>Error\<close> instance with its
  message, or any other thrown value, kept as the text \<^verbatim>\<open>String(error)\<close> gives.\<close>

datatype thrown = ErrorObj string | NonError string

text \<open>\<^verbatim>\<open>Math.round\<close>: the nearest integer, ties towards plus infinity.\<close>

definition js_round :: "real \<Rightarrow> real" where
  "js_round x = of_int \<lfloor>x + 1 / 2\<rfloor>"

text \<open>Truthiness of an optional string: absent and empty are both falsy.\<close>

definition truthy_str :: "string option \<Rightarrow> bool" where
  "truthy_str v = (case v of None \<Rightarrow> False | Some s \<Rightarrow> s \<noteq> [])"

section \<open>Configuration constants (config module)\<close>

definition CHARS_PER_TOKEN :: nat where
  "CHARS_PER_TOKEN = 4"

definition TOKEN_THRESHOLD_FOR_METRICS :: nat where
  "TOKEN_THRESHOLD_FOR_METRICS = 100"

section \<open>BenchmarkResult\<close>

text \<open>
  The record is polymorphic in its number type: results that travel as JSON hold finite
  numbers (\<^typ>\<open>real\<close>), results built in process can hold \<^verbatim>\<open>NaN\<close> as well.
  An optional field that is absent or \<^verbatim>\<open>undefined\<close> is \<^const>\<open>None\<close>.
\<close>

record 'n BenchmarkResult =
  provider :: string
  model :: string
  ttft_ms :: 'n
  tokens_per_second :: 'n
  total_latency_ms :: 'n
  token_count :: 'n
  time_to_100_tokens_ms :: "'n option"
  throughput_first_100 :: "'n option"
  error :: "string option"

section \<open>Stream metrics (benchmark-utils)\<close>

record StreamMetrics =
  startTime :: real
  firstTokenTime :: "real option"
  timeToHundredTokens :: "real option"
  tokenCount :: nat
  fullResponse :: string

definition createStreamMetrics :: "real \<Rightarrow> StreamMetrics" where
  "createStreamMetrics now =
     \<lparr>startTime = now, firstTokenTime = None, timeToHundredTokens = None,
      tokenCount = 0, fullResponse = []\<rparr>"

definition estimateTokenCount :: "string \<Rightarrow> nat" where
  "estimateTokenCount text = nat \<lceil>real (length text) / real CHARS_PER_TOKEN\<rceil>"

text \<open>
  \<^verbatim>\<open>updateMetrics(metrics, content)\<close> reads the clock at most twice: \<open>now1\<close> is the value
  read when the first-token time is assigned, \<open>now2\<close> the value read when the
  hundred-token time is assigned.
\<close>

definition updateMetrics :: "StreamMetrics \<Rightarrow> string \<Rightarrow> real \<Rightarrow> real \<Rightarrow> StreamMetrics" where
  "updateMetrics metrics content now1 now2 =
     (let m1 = (if firstTokenTime metrics = None
                then metrics\<lparr>firstTokenTime := Some now1\<rparr> else metrics);
          m2 = m1\<lparr>fullResponse := fullResponse m1 @ content\<rparr>;
          m3 = m2\<lparr>tokenCount := estimateTokenCount (fullResponse m2)\<rparr>
      in if TOKEN_THRESHOLD_FOR_METRICS \<le> tokenCount m3 \<and> timeToHundredTokens m3 = None
         then m3\<lparr>timeToHundredTokens := Some (now2 - startTime m3)\<rparr>
         else m3)"

text \<open>One call of \<^const>\<open>updateMetrics\<close>: the chunk and the two clock values.\<close>

type_synonym update_call = "string \<times> real \<times> real"

fun run_updates :: "StreamMetrics \<Rightarrow> update_call list \<Rightarrow> StreamMetrics" where
  "run_updates metrics [] = metrics"
| "run_updates metrics ((content, now1, now2) # calls) =
     run_updates (updateMetrics metrics content now1 now2) calls"

text \<open>
  The loop of the provider routes: \<^verbatim>\<open>if (content) updateMetrics(metrics, content)\<close>
  (the SSE stream reader likewise yields a chunk only \<^verbatim>\<open>if (content)\<close>).
\<close>

fun feed_chunks :: "StreamMetrics \<Rightarrow> update_call list \<Rightarrow> StreamMetrics" where
  "feed_chunks metrics [] = metrics"
| "feed_chunks metrics ((content, now1, now2) # chunks) =
     (if content \<noteq> [] then feed_chunks (updateMetrics metrics content now1 now2) chunks
      else feed_chunks metrics chunks)"

record CalculatedMetrics =
  ttftMs :: real
  totalLatencyMs :: real
  tokensPerSecond :: real
  throughputFirst100 :: "real option"

text \<open>
  \<open>endTime\<close> is the clock value read on entry. The two conditionals test the
  truthiness of a \<^verbatim>\<open>number | null\<close>: \<^verbatim>\<open>null\<close> and \<^verbatim>\<open>0\<close> both take the else branch.
\<close>

definition calculateBenchmarkMetrics :: "StreamMetrics \<Rightarrow> real \<Rightarrow> CalculatedMetrics" where
  "calculateBenchmarkMetrics metrics endTime =
     \<lparr>ttftMs =
        (case firstTokenTime metrics of
           None \<Rightarrow> endTime - startTime metrics
         | Some first \<Rightarrow>
             if first \<noteq> 0 then first - startTime metrics else endTime - startTime metrics),
      totalLatencyMs = endTime - startTime metrics,
      tokensPerSecond =
        (if 0 < tokenCount metrics \<and> 0 < endTime - startTime metrics
         then (real (tokenCount metrics) / (endTime - startTime metrics)) * 1000
         else 0),
      throughputFirst100 =
        (case timeToHundredTokens metrics of
           None \<Rightarrow> None
         | Some hundred \<Rightarrow>
             if hundred \<noteq> 0
             then Some (real TOKEN_THRESHOLD_FOR_METRICS / (hundred / 1000))
             else None)\<rparr>"

text \<open>\<open>now\<close> is the clock value read on entry.\<close>

definition buildErrorResult ::
  "string \<Rightarrow> string \<Rightarrow> thrown \<Rightarrow> real \<Rightarrow> real \<Rightarrow> real BenchmarkResult" where
  "buildErrorResult prov mdl err start now =
     \<lparr>provider = prov, model = mdl, ttft_ms = 0, tokens_per_second = 0,
      total_latency_ms = js_round (now - start), token_count = 0,
      time_to_100_tokens_ms = None, throughput_first_100 = None,
      error = Some (case err of ErrorObj message \<Rightarrow> message | NonError _ \<Rightarrow> ''Unknown error'')\<rparr>"

definition roundToOneDecimal :: "real \<Rightarrow> real" where
  "roundToOneDecimal v = js_round (v * 10) / 10"

section \<open>The SSE line parser (benchmark-utils)\<close>

text \<open>
  A value produced by \<^verbatim>\<open>JSON.parse\<close>. An object is the list of its own properties.
  \<^verbatim>\<open>undefined\<close> is not a JSON value: a read that yields it returns \<^const>\<open>None\<close>.
\<close>

datatype json =
  JNull | JBool bool | JNumber real | JString string | JArray "json list"
  | JObject "(string \<times> json) list"

datatype js_error = SyntaxError | TypeError

text \<open>The white space and line terminators \<^verbatim>\<open>String.prototype.trim\<close> strips, among the
  8-bit code units: tab, line feed, vertical tab, form feed, carriage return, space and
  no-break space.\<close>

definition is_js_whitespace :: "char \<Rightarrow> bool" where
  "is_js_whitespace c \<longleftrightarrow>
     c \<in> set [CHR 0x09, CHR 0x0A, CHR 0x0B, CHR 0x0C, CHR 0x0D, CHR 0x20, CHR 0xA0]"

definition js_trim :: "string \<Rightarrow> string" where
  "js_trim s = rev (dropWhile is_js_whitespace (rev (dropWhile is_js_whitespace s)))"

definition startsWith :: "string \<Rightarrow> string \<Rightarrow> bool" where
  "startsWith s p \<longleftrightarrow> take (length p) s = p"

text \<open>
  \<^verbatim>\<open>v.name\<close> on a value that is neither \<^verbatim>\<open>null\<close> nor \<^verbatim>\<open>undefined\<close>, for the three
  names the parser reads (\<^verbatim>\<open>choices\<close>, \<^verbatim>\<open>delta\<close>, \<^verbatim>\<open>content\<close>): only an object can have
  such a property; a string, an array, a number and a boolean have none.
\<close>

fun js_member :: "json \<Rightarrow> string \<Rightarrow> json option" where
  "js_member (JObject props) name = map_of props name"
| "js_member _ name = None"

text \<open>\<^verbatim>\<open>v[0]\<close> on a value that is neither \<^verbatim>\<open>null\<close> nor \<^verbatim>\<open>undefined\<close>: the first element
  of an array, the first code unit of a string, the property \<^verbatim>\<open>"0"\<close> of an object.\<close>

fun index0 :: "json \<Rightarrow> json option" where
  "index0 (JArray []) = None"
| "index0 (JArray (x # xs)) = Some x"
| "index0 (JString []) = None"
| "index0 (JString (c # cs)) = Some (JString [c])"
| "index0 (JObject props) = map_of props ''0''"
| "index0 _ = None"

text \<open>Optional chaining \<^verbatim>\<open>v?.f\<close>: \<^verbatim>\<open>undefined\<close> when \<open>v\<close> is \<^verbatim>\<open>undefined\<close> or
  \<^verbatim>\<open>null\<close>, the read otherwise.\<close>

definition opt_chain :: "json option \<Rightarrow> (json \<Rightarrow> json option) \<Rightarrow> json option" where
  "opt_chain v f = (case v of None \<Rightarrow> None | Some JNull \<Rightarrow> None | Some x \<Rightarrow> f x)"

fun truthy :: "json \<Rightarrow> bool" where
  "truthy JNull = False"
| "truthy (JBool b) = b"
| "truthy (JNumber x) = (x \<noteq> 0)"
| "truthy (JString s) = (s \<noteq> [])"
| "truthy (JArray xs) = True"
| "truthy (JObject props) = True"

text \<open>
  \<^verbatim>\<open>return parsed.choices?.[0]?.delta?.content || null\<close>. The first read is not optional:
  it raises a \<^verbatim>\<open>TypeError\<close> when \<open>parsed\<close> is \<^verbatim>\<open>null\<close>. The result \<^const>\<open>None\<close> is
  \<^verbatim>\<open>null\<close>.
\<close>

definition extract_content :: "json \<Rightarrow> js_error + json option" where
  "extract_content parsed =
     (if parsed = JNull then Inl TypeError
      else
        (let choices = js_member parsed ''choices'';
             first = opt_chain choices index0;
             delta = opt_chain first (\<lambda>v. js_member v ''delta'');
             content = opt_chain delta (\<lambda>v. js_member v ''content'')
         in Inr (case content of
                   None \<Rightarrow> None
                 | Some v \<Rightarrow> if truthy v then Some v else None)))"

text \<open>
  \<^verbatim>\<open>parseSSELine(line)\<close>. \<^verbatim>\<open>JSON.parse\<close> belongs to the runtime and is a parameter:
  \<open>JSON_parse data = None\<close> when it raises a \<^verbatim>\<open>SyntaxError\<close>. The result is \<open>Inl\<close> if
  the function raises, \<open>Inr None\<close> if it returns \<^verbatim>\<open>null\<close>.
\<close>

definition parseSSELine :: "(string \<Rightarrow> json option) \<Rightarrow> string \<Rightarrow> js_error + json option" where
  "parseSSELine JSON_parse line =
     (let trimmed = js_trim line in
      if trimmed = [] \<or> \<not> startsWith trimmed ''data: '' then Inr None
      else
        (let data = drop 6 trimmed in
         if data = ''[DONE]'' then Inr None
         else
           (case (case JSON_parse data of
                    None \<Rightarrow> Inl SyntaxError
                  | Some parsed \<Rightarrow> extract_content parsed) of
              Inl raised \<Rightarrow> Inr None
            | Inr content \<Rightarrow> Inr content)))"

section \<open>Property lookup on object literals\<close>

text \<open>
  The tables of the application are object literals, and \<^verbatim>\<open>table[key]\<close> with a key taken
  from the request also finds what every object literal inherits from
  \<^verbatim>\<open>Object.prototype\<close>: for these names the read yields a function (for \<^verbatim>\<open>__proto__\<close>
  the prototype object), which is truthy, and not \<^verbatim>\<open>undefined\<close>.
\<close>

definition object_prototype_keys :: "string list" where
  "object_prototype_keys =
     [''constructor'', ''__defineGetter__'', ''__defineSetter__'', ''hasOwnProperty'',
      ''__lookupGetter__'', ''__lookupSetter__'', ''isPrototypeOf'', ''propertyIsEnumerable'',
      ''toString'', ''valueOf'', ''__proto__'', ''toLocaleString'']"

datatype 'a property = Own 'a | Inherited | Missing

definition js_get :: "(string \<times> 'a) list \<Rightarrow> string \<Rightarrow> 'a property" where
  "js_get table key =
     (case map_of table key of
        Some v \<Rightarrow> Own v
      | None \<Rightarrow> if key \<in> set object_prototype_keys then Inherited else Missing)"

text \<open>\<^verbatim>\<open>Object.keys(table)\<close>: the own keys, in insertion order.\<close>

definition object_keys :: "(string \<times> 'a) list \<Rightarrow> string list" where
  "object_keys table = map fst table"

section \<open>Sorting\<close>

text \<open>
  \<^verbatim>\<open>Array.prototype.sort(compare)\<close> is stable, and for a consistent comparator its result
  is the one stable sorted arrangement of the array, whatever algorithm the engine runs;
  it is computed here by stable insertion. \<open>compare a b < 0\<close> puts \<open>a\<close> first,
  \<open>compare a b > 0\<close> puts \<open>b\<close> first, and \<open>0\<close> keeps the two in their order.
\<close>

fun insert_sorted :: "('a \<Rightarrow> 'a \<Rightarrow> real) \<Rightarrow> 'a \<Rightarrow> 'a list \<Rightarrow> 'a list" where
  "insert_sorted compare x [] = [x]"
| "insert_sorted compare x (y # ys) =
     (if compare x y \<le> 0 then x # y # ys else y # insert_sorted compare x ys)"

definition js_sort :: "('a \<Rightarrow> 'a \<Rightarrow> real) \<Rightarrow> 'a list \<Rightarrow> 'a list" where
  "js_sort compare xs = foldr (insert_sorted compare) xs []"

section \<open>The benchmark orchestrator (POST /api/benchmark)\<close>

definition PROVIDER_ENDPOINTS :: "(string \<times> string) list" where
  "PROVIDER_ENDPOINTS =
     [(''cerebras'', ''/api/benchmark/cerebras''),
      (''fireworks'', ''/api/benchmark/fireworks''),
      (''groq'', ''/api/benchmark/groq'')]"

text \<open>
  The request after \<^verbatim>\<open>await request.json()\<close>: reading the body raised, or it gave the
  three fields \<^verbatim>\<open>prompt\<close>, \<^verbatim>\<open>max_tokens\<close> and \<^verbatim>\<open>providers\<close>, each absent or present.
\<close>

datatype benchmark_request =
  Unreadable thrown
  | Body "string option" "real option" "string list option"

text \<open>
  What the sub-request to a provider route comes to: \<^verbatim>\<open>fetch\<close> or \<^verbatim>\<open>response.json()\<close>
  raises, or the route's BenchmarkResult arrives.
\<close>

datatype fetch_outcome = Rejects thrown | Resolves "real BenchmarkResult"

text \<open>
  The world around one orchestrator call: \<open>fetch w i endpoint\<close> is the outcome of the
  sub-request that the callback for position \<open>i\<close> of the provider list sends to an
  endpoint (two sub-requests to one endpoint need not come to the same), and
  \<open>invalid_url_message\<close> gives the message of the \<^verbatim>\<open>TypeError\<close> that \<^verbatim>\<open>fetch\<close> raises for a
  URL it cannot parse.
\<close>

record world =
  fetch :: "nat \<Rightarrow> string \<Rightarrow> fetch_outcome"
  invalid_url_message :: "string \<Rightarrow> string"

datatype benchmark_body =
  ErrorBody string
  | ResultsBody "real BenchmarkResult list" string real string

datatype 'b response = Response nat 'b

text \<open>The object literal the orchestrator returns for a provider that gave no result.\<close>

definition failed_result :: "string \<Rightarrow> string \<Rightarrow> real BenchmarkResult" where
  "failed_result prov message =
     \<lparr>provider = prov, model = ''unknown'', ttft_ms = 0, tokens_per_second = 0,
      total_latency_ms = 0, token_count = 0, time_to_100_tokens_ms = None,
      throughput_first_100 = None, error = Some message\<rparr>"

text \<open>
  The callback of \<^verbatim>\<open>selectedProviders.map\<close>, for the provider at position \<open>i\<close>: the
  entry for that provider, and the endpoints it sent a sub-request to. For a key inherited from
  \<^verbatim>\<open>Object.prototype\<close> the endpoint is a function or an object, so \<^verbatim>\<open>!endpoint\<close> is false
  and the URL is the origin followed by the text of that function or object: no URL
  parses from it, \<^verbatim>\<open>fetch\<close> raises a \<^verbatim>\<open>TypeError\<close> and the \<^verbatim>\<open>catch\<close> branch answers.
\<close>

definition benchmark_provider ::
  "world \<Rightarrow> nat \<Rightarrow> string \<Rightarrow> real BenchmarkResult \<times> string list" where
  "benchmark_provider w i prov =
     (case js_get PROVIDER_ENDPOINTS prov of
        Missing \<Rightarrow> (failed_result prov (''Unknown provider: '' @ prov), [])
      | Own endpoint \<Rightarrow>
          if endpoint = [] then (failed_result prov (''Unknown provider: '' @ prov), [])
          else
            (case fetch w i endpoint of
               Resolves result \<Rightarrow> (result, [endpoint])
             | Rejects (ErrorObj message) \<Rightarrow> (failed_result prov message, [endpoint])
             | Rejects (NonError _) \<Rightarrow> (failed_result prov ''Request failed'', [endpoint]))
      | Inherited \<Rightarrow> (failed_result prov (invalid_url_message w prov), []))"

datatype 'a settled = Fulfilled 'a | Rejected thrown

text \<open>\<^verbatim>\<open>settledResults.map((settled, index) => ...)\<close>.\<close>

definition collect_settled ::
  "string list \<Rightarrow> real BenchmarkResult settled list \<Rightarrow> real BenchmarkResult list" where
  "collect_settled selectedProviders settledResults =
     map (\<lambda>(settled, prov).
            case settled of
              Fulfilled result \<Rightarrow> result
            | Rejected (ErrorObj message) \<Rightarrow>
                failed_result prov (if message = [] then ''Promise rejected'' else message)
            | Rejected (NonError _) \<Rightarrow> failed_result prov ''Promise rejected'')
         (zip settledResults selectedProviders)"

text \<open>An entry carries an error when \<^verbatim>\<open>a.error\<close> is truthy: the field is present and
  not the empty string. The comparator and the result table both test it this way.\<close>

definition has_error :: "'n BenchmarkResult \<Rightarrow> bool" where
  "has_error r = truthy_str (error r)"

definition compare_results :: "real BenchmarkResult \<Rightarrow> real BenchmarkResult \<Rightarrow> real" where
  "compare_results a b =
     (if has_error a \<and> \<not> has_error b then 1
      else if \<not> has_error a \<and> has_error b then - 1
      else ttft_ms a - ttft_ms b)"

definition select_providers :: "string list option \<Rightarrow> string list" where
  "select_providers providers =
     (case providers of
        None \<Rightarrow> object_keys PROVIDER_ENDPOINTS
      | Some ps \<Rightarrow> if 0 < length ps then ps else object_keys PROVIDER_ENDPOINTS)"

text \<open>
  The route handler. The result is the response together with the sub-requests sent.
  \<open>timestamp\<close> is the text of \<^verbatim>\<open>new Date().toISOString()\<close>.
\<close>

definition POST_benchmark ::
  "world \<Rightarrow> benchmark_request \<Rightarrow> string \<Rightarrow> benchmark_body response \<times> string list" where
  "POST_benchmark w request timestamp =
     (case request of
        Unreadable (ErrorObj message) \<Rightarrow> (Response 500 (ErrorBody message), [])
      | Unreadable (NonError _) \<Rightarrow> (Response 500 (ErrorBody ''Unknown error''), [])
      | Body None max_tokens providers \<Rightarrow> (Response 400 (ErrorBody ''prompt is required''), [])
      | Body (Some prompt) max_tokens providers \<Rightarrow>
          if prompt = [] then (Response 400 (ErrorBody ''prompt is required''), [])
          else
            (let selectedProviders = select_providers providers;
                 calls = map (\<lambda>(i, prov). benchmark_provider w i prov)
                           (enumerate 0 selectedProviders);
                 settledResults = map (\<lambda>call. Fulfilled (fst call)) calls;
                 results = collect_settled selectedProviders settledResults;
                 sorted_results = js_sort compare_results results
             in (Response 200
                   (ResultsBody sorted_results prompt
                      (case max_tokens of
                         None \<Rightarrow> 256
                       | Some m \<Rightarrow> if m \<noteq> 0 then m else 256)
                      timestamp),
                 concat (map snd calls))))"

text \<open>The status and the results array of a response (no results in an error body).\<close>

fun response_status :: "'b response \<Rightarrow> nat" where
  "response_status (Response status body) = status"

fun response_results :: "benchmark_body response \<Rightarrow> real BenchmarkResult list" where
  "response_results (Response status (ResultsBody results prompt max_tokens timestamp)) = results"
| "response_results (Response status (ErrorBody message)) = []"

text \<open>An error-only entry for a provider: the error message and zeroed metrics.\<close>

definition error_only :: "string \<Rightarrow> real BenchmarkResult \<Rightarrow> bool" where
  "error_only prov r \<longleftrightarrow>
     provider r = prov \<and> error r \<noteq> None \<and> ttft_ms r = 0 \<and> tokens_per_second r = 0
     \<and> total_latency_ms r = 0 \<and> token_count r = 0
     \<and> time_to_100_tokens_ms r = None \<and> throughput_first_100 r = None"

text \<open>The order \<^const>\<open>compare_results\<close> decides, as a key: entries without an error before
  entries with one, then by time-to-first-token.\<close>

definition result_key :: "real BenchmarkResult \<Rightarrow> nat \<times> real" where
  "result_key r = (if has_error r then 1 else 0, ttft_ms r)"

text \<open>A world to evaluate the orchestrator in: the cerebras route answers with a result,
  every other sub-request fails.\<close>

definition example_world :: world where
  "example_world =
     \<lparr>fetch = (\<lambda>i endpoint.
         if endpoint = ''/api/benchmark/cerebras''
         then Resolves \<lparr>provider = ''cerebras'', model = ''llama-3.3-70b'', ttft_ms = 52,
                tokens_per_second = 2156, total_latency_ms = 127, token_count = 274,
                time_to_100_tokens_ms = Some 98, throughput_first_100 = Some 1020,
                error = None\<rparr>
         else Rejects (ErrorObj ''fetch failed'')),
      invalid_url_message = (\<lambda>prov. ''Invalid URL'')\<rparr>"

text \<open>The entries the callbacks make, in the order of the provider list: the list the
  orchestrator collects and then sorts.\<close>

definition collected :: "world \<Rightarrow> string list \<Rightarrow> real BenchmarkResult list" where
  "collected w selectedProviders =
     map (\<lambda>(i, prov). fst (benchmark_provider w i prov)) (enumerate 0 selectedProviders)"

section \<open>The mock route (POST /api/benchmark/mock)\<close>

text \<open>A number computed in process: arithmetic on \<^verbatim>\<open>undefined\<close> gives \<^verbatim>\<open>NaN\<close>.\<close>

datatype jsnum = Num real | NaN

record ProviderConfig =
  cfg_name :: string
  cfg_model :: string
  cfg_color :: string
  cfg_endpoint :: string

definition providers :: "(string \<times> ProviderConfig) list" where
  "providers =
     [(''cerebras'', \<lparr>cfg_name = ''Cerebras'', cfg_model = ''llama-3.3-70b'',
         cfg_color = ''#10B981'', cfg_endpoint = ''cerebras-sdk''\<rparr>),
      (''fireworks'', \<lparr>cfg_name = ''Fireworks'',
         cfg_model = ''accounts/fireworks/models/llama-v3p3-70b-instruct'',
         cfg_color = ''#F59E0B'',
         cfg_endpoint = ''https://api.fireworks.ai/inference/v1/chat/completions''\<rparr>),
      (''groq'', \<lparr>cfg_name = ''Groq'', cfg_model = ''llama-3.3-70b-versatile'',
         cfg_color = ''#EC4899'',
         cfg_endpoint = ''https://api.groq.com/openai/v1/chat/completions''\<rparr>)]"

record MockFixture =
  fx_ttft_ms :: real
  fx_tokens_per_second :: real
  fx_total_latency_ms :: real
  fx_token_count :: real
  fx_time_to_100_tokens_ms :: real
  fx_throughput_first_100 :: real

definition MOCK_BENCHMARKS :: "(string \<times> MockFixture) list" where
  "MOCK_BENCHMARKS =
     [(''cerebras'', \<lparr>fx_ttft_ms = 52, fx_tokens_per_second = 21563 / 10,
         fx_total_latency_ms = 127, fx_token_count = 274, fx_time_to_100_tokens_ms = 98,
         fx_throughput_first_100 = 10204 / 10\<rparr>),
      (''groq'', \<lparr>fx_ttft_ms = 186, fx_tokens_per_second = 5127 / 10,
         fx_total_latency_ms = 534, fx_token_count = 274, fx_time_to_100_tokens_ms = 382,
         fx_throughput_first_100 = 2618 / 10\<rparr>),
      (''fireworks'', \<lparr>fx_ttft_ms = 245, fx_tokens_per_second = 894 / 10,
         fx_total_latency_ms = 3065, fx_token_count = 274, fx_time_to_100_tokens_ms = 1340,
         fx_throughput_first_100 = 746 / 10\<rparr>)]"

definition TTFT_VARIANCE_PERCENT :: real where
  "TTFT_VARIANCE_PERCENT = 15"

definition TPS_VARIANCE_PERCENT :: real where
  "TPS_VARIANCE_PERCENT = 10"

definition LATENCY_VARIANCE_PERCENT :: real where
  "LATENCY_VARIANCE_PERCENT = 12"

definition TOKEN_COUNT_VARIANCE :: real where
  "TOKEN_COUNT_VARIANCE = 10"

text \<open>\<^verbatim>\<open>addVariance(value, variancePercent)\<close>; \<open>random\<close> is what \<^verbatim>\<open>Math.random()\<close> returns.\<close>

definition addVariance :: "jsnum \<Rightarrow> real \<Rightarrow> real \<Rightarrow> jsnum" where
  "addVariance v variancePercent random =
     (case v of
        NaN \<Rightarrow> NaN
      | Num x \<Rightarrow>
          (let variance = x * (variancePercent / 100);
               delta = (random - 1 / 2) * 2 * variance
           in Num (roundToOneDecimal (x + delta))))"

text \<open>
  \<^verbatim>\<open>mockData.field\<close> used as a number: the fixture's value, or \<^verbatim>\<open>undefined\<close>, hence
  \<^verbatim>\<open>NaN\<close>, when \<open>mockData\<close> is a function or object inherited from \<^verbatim>\<open>Object.prototype\<close>.
\<close>

definition fixture_number :: "MockFixture property \<Rightarrow> (MockFixture \<Rightarrow> real) \<Rightarrow> jsnum" where
  "fixture_number mockData field =
     (case mockData of Own fixture \<Rightarrow> Num (field fixture) | Inherited \<Rightarrow> NaN | Missing \<Rightarrow> NaN)"

text \<open>\<^verbatim>\<open>mockData.field ? ... : undefined\<close>: the field is there and is not zero.\<close>

definition fixture_truthy :: "MockFixture property \<Rightarrow> (MockFixture \<Rightarrow> real) \<Rightarrow> bool" where
  "fixture_truthy mockData field =
     (case mockData of Own fixture \<Rightarrow> field fixture \<noteq> 0 | Inherited \<Rightarrow> False | Missing \<Rightarrow> False)"

text \<open>\<^verbatim>\<open>providers[providerId]?.model || "unknown"\<close>.\<close>

definition model_of :: "string \<Rightarrow> string" where
  "model_of providerId =
     (case js_get providers providerId of
        Own config \<Rightarrow> if cfg_model config \<noteq> [] then cfg_model config else ''unknown''
      | Inherited \<Rightarrow> ''unknown''
      | Missing \<Rightarrow> ''unknown'')"

text \<open>
  The body of the loop for a provider that is not skipped. \<open>rng\<close> is the sequence of
  values \<^verbatim>\<open>Math.random()\<close> returns and \<open>n\<close> the number of values drawn so far;
  \<^verbatim>\<open>simulateLatency\<close> draws the first one. The result is the entry and the new count.
\<close>

definition mock_result ::
  "(nat \<Rightarrow> real) \<Rightarrow> nat \<Rightarrow> string \<Rightarrow> MockFixture property \<Rightarrow> jsnum BenchmarkResult \<times> nat" where
  "mock_result rng n providerId mockData =
     (let has_100 = fixture_truthy mockData fx_time_to_100_tokens_ms;
          has_throughput = fixture_truthy mockData fx_throughput_first_100;
          n5 = (if has_100 then n + 6 else n + 5);
          n6 = (if has_throughput then n5 + 1 else n5)
      in (\<lparr>provider = providerId,
           model = model_of providerId,
           ttft_ms = addVariance (fixture_number mockData fx_ttft_ms) TTFT_VARIANCE_PERCENT (rng (n + 1)),
           tokens_per_second =
             addVariance (fixture_number mockData fx_tokens_per_second) TPS_VARIANCE_PERCENT (rng (n + 2)),
           total_latency_ms =
             addVariance (fixture_number mockData fx_total_latency_ms) LATENCY_VARIANCE_PERCENT (rng (n + 3)),
           token_count =
             (case fixture_number mockData fx_token_count of
                NaN \<Rightarrow> NaN
              | Num c \<Rightarrow>
                  Num (c + of_int \<lfloor>rng (n + 4) * TOKEN_COUNT_VARIANCE * 2 - TOKEN_COUNT_VARIANCE\<rfloor>)),
           time_to_100_tokens_ms =
             (if has_100
              then Some (addVariance (fixture_number mockData fx_time_to_100_tokens_ms)
                           LATENCY_VARIANCE_PERCENT (rng (n + 5)))
              else None),
           throughput_first_100 =
             (if has_throughput
              then Some (addVariance (fixture_number mockData fx_throughput_first_100)
                           TPS_VARIANCE_PERCENT (rng n5))
              else None),
           error = None\<rparr>, n6))"

text \<open>\<^verbatim>\<open>for (const providerId of providersToTest)\<close> with \<^verbatim>\<open>if (!mockData) continue\<close>.\<close>

fun mock_loop :: "(nat \<Rightarrow> real) \<Rightarrow> nat \<Rightarrow> string list \<Rightarrow> jsnum BenchmarkResult list" where
  "mock_loop rng n [] = []"
| "mock_loop rng n (providerId # rest) =
     (case js_get MOCK_BENCHMARKS providerId of
        Missing \<Rightarrow> mock_loop rng n rest
      | mockData \<Rightarrow>
          (case mock_result rng n providerId mockData of
             (result, n') \<Rightarrow> result # mock_loop rng n' rest))"

text \<open>
  \<^verbatim>\<open>(a, b) => a.ttft_ms - b.ttft_ms\<close>; a comparator that returns \<^verbatim>\<open>NaN\<close> is read as
  returning \<open>0\<close>. With a \<^verbatim>\<open>NaN\<close> among the keys the comparator is not consistent and the
  order of the result is implementation-defined: nothing is claimed about it then.
\<close>

definition compare_ttft :: "jsnum BenchmarkResult \<Rightarrow> jsnum BenchmarkResult \<Rightarrow> real" where
  "compare_ttft a b =
     (case (ttft_ms a, ttft_ms b) of
        (Num x, Num y) \<Rightarrow> x - y
      | _ \<Rightarrow> 0)"

datatype mock_request = MockUnreadable thrown | MockBody "string list option"

datatype mock_body =
  MockError string
  | MockResults "jsnum BenchmarkResult list" bool string

definition POST_mock :: "(nat \<Rightarrow> real) \<Rightarrow> mock_request \<Rightarrow> string \<Rightarrow> mock_body response" where
  "POST_mock rng request timestamp =
     (case request of
        MockUnreadable (ErrorObj message) \<Rightarrow> Response 500 (MockError message)
      | MockUnreadable (NonError _) \<Rightarrow> Response 500 (MockError ''Unknown error'')
      | MockBody selectedProviders \<Rightarrow>
          (let providersToTest =
                 (case selectedProviders of
                    None \<Rightarrow> object_keys providers
                  | Some ps \<Rightarrow> if 0 < length ps then ps else object_keys providers);
               results = mock_loop rng 0 providersToTest
           in Response 200 (MockResults (js_sort compare_ttft results) True timestamp)))"

section \<open>The agent race (POST /api/agent-race)\<close>

definition MAX_TOKENS_PER_STEP :: nat where
  "MAX_TOKENS_PER_STEP = 150"

definition OUTPUT_PREVIEW_LENGTH :: nat where
  "OUTPUT_PREVIEW_LENGTH = 150"

text \<open>A step: its name and its prompt template.\<close>

definition STEPS :: "(string \<times> (string \<Rightarrow> string)) list" where
  "STEPS =
     [(''Research'', \<lambda>company.
         ''Find 3 key facts about '' @ company
           @ '''s business model, products, and recent news.''),
      (''Summarize'', \<lambda>prev.
         ''Summarize this research into exactly 3 concise bullet points:\<newline>\<newline>'' @ prev),
      (''Draft'', \<lambda>prev.
         ''Write a 3-paragraph cold outreach email based on:\<newline>\<newline>'' @ prev),
      (''Critique'', \<lambda>prev.
         ''Critique this email. List 3 specific improvements:\<newline>\<newline>'' @ prev),
      (''Revise'', \<lambda>prev.
         ''Revise the email with these improvements:\<newline>\<newline>'' @ prev)]"

text \<open>
  What \<^verbatim>\<open>await callProvider(provider, prompt, maxTokens)\<close> comes to: it raises (no API
  key configured, the network fails, the provider answers with a status that is not 2xx),
  or it returns the content; \<open>Returns content elapsed\<close> also holds the time in
  milliseconds that \<^verbatim>\<open>performance.now()\<close> measures around the call.
\<close>

datatype call_outcome = Throws thrown | Returns string real

text \<open>The outcome of the call a run makes at step index \<open>i\<close> with a prompt.\<close>

type_synonym provider_calls = "nat \<Rightarrow> string \<Rightarrow> call_outcome"

text \<open>The JSON objects sent by \<^verbatim>\<open>sendSSEMessage\<close>: a step that is running, complete
  (latency, output preview) or in error (message), and the completion of the stream
  (total latency, error flag).\<close>

datatype sse_message =
  StepRunning nat string
  | StepComplete nat string real string
  | StepError nat string string
  | StreamComplete real bool

text \<open>What happens on the output channel: \<^verbatim>\<open>controller.enqueue\<close> and
  \<^verbatim>\<open>controller.close\<close>.\<close>

datatype channel_op = Enqueue sse_message | Close

definition output_preview :: "string \<Rightarrow> string" where
  "output_preview content =
     (if OUTPUT_PREVIEW_LENGTH < length content
      then take OUTPUT_PREVIEW_LENGTH content @ ''...''
      else content)"

definition error_text :: "thrown \<Rightarrow> string" where
  "error_text err = (case err of ErrorObj message \<Rightarrow> message | NonError text \<Rightarrow> text)"

text \<open>
  The \<^verbatim>\<open>for\<close> loop over the steps from index \<open>i\<close> on, \<open>steps\<close> being the steps that
  remain. The result is the messages sent, \<^verbatim>\<open>totalLatency\<close> and \<^verbatim>\<open>hasError\<close>.
  A step that raises ends the loop (\<^verbatim>\<open>break\<close>).
\<close>

fun run_steps ::
  "provider_calls \<Rightarrow> string \<Rightarrow> (string \<times> (string \<Rightarrow> string)) list \<Rightarrow> nat \<Rightarrow> string \<Rightarrow> real
     \<Rightarrow> channel_op list \<times> real \<times> bool" where
  "run_steps callProvider company [] i previousOutput totalLatency = ([], totalLatency, False)"
| "run_steps callProvider company ((name, prompt) # steps) i previousOutput totalLatency =
     (case callProvider i (if i = 0 then prompt company else prompt previousOutput) of
        Returns content elapsed \<Rightarrow>
          (case run_steps callProvider company steps (i + 1) content
                  (totalLatency + js_round elapsed) of
             (sent, finalLatency, hasError) \<Rightarrow>
               (Enqueue (StepRunning (i + 1) name)
                  # Enqueue (StepComplete (i + 1) name (js_round elapsed) (output_preview content))
                  # sent,
                finalLatency, hasError))
      | Throws err \<Rightarrow>
          ([Enqueue (StepRunning (i + 1) name),
            Enqueue (StepError (i + 1) name (error_text err))],
           totalLatency, True))"

text \<open>The \<^verbatim>\<open>start\<close> function of the stream: the loop, the completion message, and the
  \<^verbatim>\<open>finally\<close> block that closes the channel.\<close>

definition race_stream :: "provider_calls \<Rightarrow> string \<Rightarrow> channel_op list" where
  "race_stream callProvider company =
     (case run_steps callProvider company STEPS 0 company 0 of
        (sent, totalLatency, hasError) \<Rightarrow>
          sent @ [Enqueue (StreamComplete totalLatency hasError)] @ [Close])"

datatype race_response = RaceError nat string | RaceStream "channel_op list"

text \<open>The route handler, on a body with the fields \<^verbatim>\<open>provider\<close> and \<^verbatim>\<open>company\<close>, each
  absent or a string.\<close>

definition POST_agent_race ::
  "provider_calls \<Rightarrow> string option \<Rightarrow> string option \<Rightarrow> race_response" where
  "POST_agent_race callProvider prov company =
     (case prov of
        None \<Rightarrow> RaceError 400 ''Invalid provider. Must be cerebras, groq, or fireworks''
      | Some p \<Rightarrow>
          if p = [] \<or> p \<notin> set [''cerebras'', ''groq'', ''fireworks'']
          then RaceError 400 ''Invalid provider. Must be cerebras, groq, or fireworks''
          else
            (case company of
               None \<Rightarrow> RaceError 400 ''company is required''
             | Some c \<Rightarrow>
                 if c = [] then RaceError 400 ''company is required''
                 else RaceStream (race_stream callProvider c)))"

text \<open>
  The provider calls of a run, step by step: the text that feeds step \<open>i\<close> is the
  company name for the first step and the content the previous call returned afterwards.
\<close>

fun previous_output :: "provider_calls \<Rightarrow> string \<Rightarrow> nat \<Rightarrow> string" where
  "previous_output callProvider company 0 = company"
| "previous_output callProvider company (Suc i) =
     (case callProvider i (snd (STEPS ! i) (previous_output callProvider company i)) of
        Returns content elapsed \<Rightarrow> content
      | Throws err \<Rightarrow> previous_output callProvider company i)"

definition call_at :: "provider_calls \<Rightarrow> string \<Rightarrow> nat \<Rightarrow> call_outcome" where
  "call_at callProvider company i =
     callProvider i (snd (STEPS ! i) (previous_output callProvider company i))"

text \<open>The two messages of step index \<open>i\<close> (step number \<open>i + 1\<close>), given what its call
  comes to.\<close>

definition step_events :: "provider_calls \<Rightarrow> string \<Rightarrow> nat \<Rightarrow> channel_op list" where
  "step_events callProvider company i =
     (case call_at callProvider company i of
        Returns content elapsed \<Rightarrow>
          [Enqueue (StepRunning (i + 1) (fst (STEPS ! i))),
           Enqueue (StepComplete (i + 1) (fst (STEPS ! i)) (js_round elapsed)
              (output_preview content))]
      | Throws err \<Rightarrow>
          [Enqueue (StepRunning (i + 1) (fst (STEPS ! i))),
           Enqueue (StepError (i + 1) (fst (STEPS ! i)) (error_text err))])"

text \<open>The step number a message is about, and the messages that end the stream.\<close>

fun step_number :: "channel_op \<Rightarrow> nat option" where
  "step_number (Enqueue (StepRunning step name)) = Some step"
| "step_number (Enqueue (StepComplete step name latency preview)) = Some step"
| "step_number (Enqueue (StepError step name message)) = Some step"
| "step_number (Enqueue (StreamComplete totalLatency hasError)) = None"
| "step_number Close = None"

fun is_completion :: "channel_op \<Rightarrow> bool" where
  "is_completion (Enqueue (StreamComplete totalLatency hasError)) = True"
| "is_completion _ = False"

text \<open>A run to evaluate: the first call returns, the second finds no API key.\<close>

definition example_calls :: provider_calls where
  "example_calls i prompt =
     (if i = 1 then Throws (ErrorObj ''GROQ_API_KEY not configured'')
      else Returns ''Acme sells anvils.'' (1204 / 10))"

section \<open>Error results of a single provider\<close>

text \<open>
  C1 (as amended). A result built by \<^const>\<open>buildErrorResult\<close>, for any provider, model,
  error value and start time, carries an error message, has time-to-first-token,
  tokens-per-second and token count equal to zero, and has neither of the two optional
  metrics; its total latency is not zeroed: it is the rounded time elapsed since the
  start of the call.
\<close>

theorem buildErrorResult_fields:
  "error (buildErrorResult prov mdl err start now) \<noteq> None
   \<and> ttft_ms (buildErrorResult prov mdl err start now) = 0
   \<and> tokens_per_second (buildErrorResult prov mdl err start now) = 0
   \<and> token_count (buildErrorResult prov mdl err start now) = 0
   \<and> total_latency_ms (buildErrorResult prov mdl err start now) = js_round (now - start)
   \<and> time_to_100_tokens_ms (buildErrorResult prov mdl err start now) = None
   \<and> throughput_first_100 (buildErrorResult prov mdl err start now) = None
   \<and> provider (buildErrorResult prov mdl err start now) = prov
   \<and> model (buildErrorResult prov mdl err start now) = mdl"
  by (simp add: buildErrorResult_def)

text \<open>
  C1 as stated fails on the total latency: a call that started at time 0 and failed at
  time 100 reports 100 ms, not zero.
\<close>

theorem buildErrorResult_latency_counterexample:
  "total_latency_ms
     (buildErrorResult ''cerebras'' ''llama-3.3-70b'' (ErrorObj ''boom'') 0 100) = 100
   \<and> total_latency_ms
     (buildErrorResult ''cerebras'' ''llama-3.3-70b'' (ErrorObj ''boom'') 0 100) \<noteq> 0"
  by (simp add: buildErrorResult_def js_round_def)

section \<open>Final metrics of a stream\<close>

text \<open>
  C4 (as amended). For an accumulator whose start time is not after the clock value read
  by \<^const>\<open>calculateBenchmarkMetrics\<close> and whose first-token time, if recorded, is not the
  timestamp 0: time-to-first-token is the first-token time minus the start time if a first
  token was recorded and the time elapsed since the start otherwise; total latency is the
  time elapsed since the start; tokens-per-second is the token count divided by the total
  latency in seconds, and 0 when the token count or the total latency is 0; the throughput
  for the first 100 tokens is 100 divided by the time to 100 tokens in seconds, and null
  when that time was never recorded or is 0. For a fresh accumulator (no chunk received)
  time-to-first-token and total latency are equal.
\<close>

theorem calculateBenchmarkMetrics_values:
  assumes "startTime m \<le> now" and "firstTokenTime m \<noteq> Some 0"
  shows "ttftMs (calculateBenchmarkMetrics m now) =
           (case firstTokenTime m of Some t \<Rightarrow> t - startTime m | None \<Rightarrow> now - startTime m)
         \<and> totalLatencyMs (calculateBenchmarkMetrics m now) = now - startTime m
         \<and> tokensPerSecond (calculateBenchmarkMetrics m now) =
             (if tokenCount m = 0 \<or> now - startTime m = 0 then 0
              else real (tokenCount m) / ((now - startTime m) / 1000))
         \<and> throughputFirst100 (calculateBenchmarkMetrics m now) =
             (case timeToHundredTokens m of
                None \<Rightarrow> None
              | Some t \<Rightarrow> if t = 0 then None else Some (100 / (t / 1000)))
         \<and> ttftMs (calculateBenchmarkMetrics (createStreamMetrics start) now)
             = totalLatencyMs (calculateBenchmarkMetrics (createStreamMetrics start) now)"
  using assms
  by (auto simp: calculateBenchmarkMetrics_def createStreamMetrics_def
      TOKEN_THRESHOLD_FOR_METRICS_def split: option.splits)

theorem calculateBenchmarkMetrics_values_witness:
  "startTime \<lparr>startTime = 10, firstTokenTime = Some 30, timeToHundredTokens = Some 500,
      tokenCount = 120, fullResponse = replicate 480 CHR ''a''\<rparr> \<le> (1010::real)
   \<and> firstTokenTime \<lparr>startTime = 10, firstTokenTime = Some 30, timeToHundredTokens = Some 500,
      tokenCount = 120, fullResponse = replicate 480 CHR ''a''\<rparr> \<noteq> Some 0
   \<and> ttftMs (calculateBenchmarkMetrics \<lparr>startTime = 10, firstTokenTime = Some 30,
      timeToHundredTokens = Some 500, tokenCount = 120,
      fullResponse = replicate 480 CHR ''a''\<rparr> 1010) = 20
   \<and> totalLatencyMs (calculateBenchmarkMetrics \<lparr>startTime = 10, firstTokenTime = Some 30,
      timeToHundredTokens = Some 500, tokenCount = 120,
      fullResponse = replicate 480 CHR ''a''\<rparr> 1010) = 1000
   \<and> tokensPerSecond (calculateBenchmarkMetrics \<lparr>startTime = 10, firstTokenTime = Some 30,
      timeToHundredTokens = Some 500, tokenCount = 120,
      fullResponse = replicate 480 CHR ''a''\<rparr> 1010) = 120
   \<and> throughputFirst100 (calculateBenchmarkMetrics \<lparr>startTime = 10, firstTokenTime = Some 30,
      timeToHundredTokens = Some 500, tokenCount = 120,
      fullResponse = replicate 480 CHR ''a''\<rparr> 1010) = Some 200"
  using calculateBenchmarkMetrics_values [of "\<lparr>startTime = 10, firstTokenTime = Some 30,
      timeToHundredTokens = Some 500, tokenCount = 120,
      fullResponse = replicate 480 CHR ''a''\<rparr>" 1010 0]
  by simp

text \<open>
  C4 as stated fails where a recorded time is the number 0, which the conditionals of
  \<^const>\<open>calculateBenchmarkMetrics\<close> read as not recorded. With start time 0, a first token
  recorded at time 0 and the threshold reached after 0 ms, finalising at time 50 gives a
  time-to-first-token of 50 (the claim: the first-token time minus the start time, 0) and
  no throughput (the claim: null only when the threshold was never reached).
\<close>

theorem calculateBenchmarkMetrics_zero_counterexample:
  "firstTokenTime \<lparr>startTime = 0, firstTokenTime = Some 0, timeToHundredTokens = Some 0,
      tokenCount = 100, fullResponse = replicate 400 CHR ''a''\<rparr> = Some 0
   \<and> ttftMs (calculateBenchmarkMetrics \<lparr>startTime = 0, firstTokenTime = Some 0,
      timeToHundredTokens = Some 0, tokenCount = 100,
      fullResponse = replicate 400 CHR ''a''\<rparr> 50) = 50
   \<and> ttftMs (calculateBenchmarkMetrics \<lparr>startTime = 0, firstTokenTime = Some 0,
      timeToHundredTokens = Some 0, tokenCount = 100,
      fullResponse = replicate 400 CHR ''a''\<rparr> 50) \<noteq> 0 - 0
   \<and> timeToHundredTokens \<lparr>startTime = 0, firstTokenTime = Some 0, timeToHundredTokens = Some 0,
      tokenCount = 100, fullResponse = replicate 400 CHR ''a''\<rparr> \<noteq> None
   \<and> throughputFirst100 (calculateBenchmarkMetrics \<lparr>startTime = 0, firstTokenTime = Some 0,
      timeToHundredTokens = Some 0, tokenCount = 100,
      fullResponse = replicate 400 CHR ''a''\<rparr> 50) = None"
  by (simp add: calculateBenchmarkMetrics_def)

section \<open>Updates of the accumulator\<close>

lemma estimateTokenCount_mono:
  "length xs \<le> length ys \<Longrightarrow> estimateTokenCount xs \<le> estimateTokenCount ys"
  unfolding estimateTokenCount_def CHARS_PER_TOKEN_def
  by (intro nat_mono ceiling_mono divide_right_mono) simp_all

lemma updateMetrics_startTime [simp]:
  "startTime (updateMetrics m c a b) = startTime m"
  by (simp add: updateMetrics_def Let_def)

lemma updateMetrics_fullResponse [simp]:
  "fullResponse (updateMetrics m c a b) = fullResponse m @ c"
  by (simp add: updateMetrics_def Let_def)

lemma updateMetrics_tokenCount [simp]:
  "tokenCount (updateMetrics m c a b) = estimateTokenCount (fullResponse m @ c)"
  by (simp add: updateMetrics_def Let_def)

lemma updateMetrics_firstTokenTime:
  "firstTokenTime (updateMetrics m c a b) =
     (case firstTokenTime m of None \<Rightarrow> Some a | Some t \<Rightarrow> Some t)"
  by (simp add: updateMetrics_def Let_def split: option.splits)

lemma updateMetrics_timeToHundredTokens:
  "timeToHundredTokens (updateMetrics m c a b) =
     (if TOKEN_THRESHOLD_FOR_METRICS \<le> estimateTokenCount (fullResponse m @ c)
         \<and> timeToHundredTokens m = None
      then Some (b - startTime m) else timeToHundredTokens m)"
  by (simp add: updateMetrics_def Let_def)

lemma run_updates_startTime [simp]:
  "startTime (run_updates m calls) = startTime m"
  by (induction m calls rule: run_updates.induct) simp_all

lemma run_updates_counted:
  "tokenCount m = estimateTokenCount (fullResponse m) \<Longrightarrow>
   tokenCount (run_updates m calls) = estimateTokenCount (fullResponse (run_updates m calls))"
  by (induction m calls rule: run_updates.induct) simp_all

lemma run_updates_firstTokenTime_set:
  "firstTokenTime m = Some t \<Longrightarrow> firstTokenTime (run_updates m calls) = Some t"
  by (induction m calls rule: run_updates.induct) (simp_all add: updateMetrics_firstTokenTime)

lemma run_updates_firstTokenTime_fresh:
  "firstTokenTime m = None \<Longrightarrow>
   firstTokenTime (run_updates m calls) =
     (case calls of [] \<Rightarrow> None | (c, now1, now2) # _ \<Rightarrow> Some now1)"
  by (cases calls) (auto simp: updateMetrics_firstTokenTime run_updates_firstTokenTime_set)

lemma feed_chunks_firstTokenTime_set:
  "firstTokenTime m = Some t \<Longrightarrow> firstTokenTime (feed_chunks m chunks) = Some t"
  by (induction m chunks rule: feed_chunks.induct) (simp_all add: updateMetrics_firstTokenTime)

lemma feed_chunks_firstTokenTime_fresh:
  "firstTokenTime m = None \<Longrightarrow>
   firstTokenTime (feed_chunks m chunks) =
     (case filter (\<lambda>(c, now1, now2). c \<noteq> []) chunks of
        [] \<Rightarrow> None | (c, now1, now2) # _ \<Rightarrow> Some now1)"
  by (induction m chunks rule: feed_chunks.induct)
     (simp_all add: updateMetrics_firstTokenTime feed_chunks_firstTokenTime_set)

text \<open>
  C5 (as amended). Take any sequence of update calls applied to a freshly created
  accumulator, and one more call after it. The first-token time is assigned at most once,
  on the first update call, whatever its chunk (so on the first non-empty chunk when, as in
  the provider routes, empty chunks are not passed to update): after the sequence it is
  the clock value of the first call, and a further call leaves it as it is. The time to
  100 tokens, once assigned, is never changed by a further call, and a call that assigns
  it is one after which the estimated token count (the accumulated length divided by 4,
  rounded up) is at least 100. The token count never decreases.
\<close>

theorem updateMetrics_sequence:
  "firstTokenTime (run_updates (createStreamMetrics start) calls) =
     (case calls of [] \<Rightarrow> None | (c, t1, t2) # _ \<Rightarrow> Some t1)
   \<and> firstTokenTime (feed_chunks (createStreamMetrics start) calls) =
     (case filter (\<lambda>(c, t1, t2). c \<noteq> []) calls of
        [] \<Rightarrow> None | (c, t1, t2) # _ \<Rightarrow> Some t1)
   \<and> (firstTokenTime (run_updates (createStreamMetrics start) calls) \<noteq> None \<longrightarrow>
        firstTokenTime
          (updateMetrics (run_updates (createStreamMetrics start) calls) content now1 now2)
          = firstTokenTime (run_updates (createStreamMetrics start) calls))
   \<and> (timeToHundredTokens (run_updates (createStreamMetrics start) calls) \<noteq> None \<longrightarrow>
        timeToHundredTokens
          (updateMetrics (run_updates (createStreamMetrics start) calls) content now1 now2)
          = timeToHundredTokens (run_updates (createStreamMetrics start) calls))
   \<and> (timeToHundredTokens
          (updateMetrics (run_updates (createStreamMetrics start) calls) content now1 now2)
          \<noteq> timeToHundredTokens (run_updates (createStreamMetrics start) calls) \<longrightarrow>
        100 \<le> nat \<lceil>real (length
                  (fullResponse (run_updates (createStreamMetrics start) calls) @ content)) / 4\<rceil>
        \<and> 100 \<le> tokenCount
             (updateMetrics (run_updates (createStreamMetrics start) calls) content now1 now2)
        \<and> timeToHundredTokens (run_updates (createStreamMetrics start) calls) = None
        \<and> timeToHundredTokens
             (updateMetrics (run_updates (createStreamMetrics start) calls) content now1 now2)
            = Some (now2 - start))
   \<and> tokenCount (run_updates (createStreamMetrics start) calls)
        \<le> tokenCount
             (updateMetrics (run_updates (createStreamMetrics start) calls) content now1 now2)"
proof -
  let ?fresh = "createStreamMetrics start"
  let ?before = "run_updates ?fresh calls"
  have fresh: "firstTokenTime ?fresh = None"
    "tokenCount ?fresh = estimateTokenCount (fullResponse ?fresh)"
    "startTime ?fresh = start"
    by (simp_all add: createStreamMetrics_def estimateTokenCount_def)
  have counted: "tokenCount ?before = estimateTokenCount (fullResponse ?before)"
    by (rule run_updates_counted) (rule fresh)
  have mono: "tokenCount ?before \<le> tokenCount (updateMetrics ?before content now1 now2)"
    unfolding counted by (simp add: estimateTokenCount_mono)
  have first: "firstTokenTime ?before =
      (case calls of [] \<Rightarrow> None | (c, t1, t2) # _ \<Rightarrow> Some t1)"
    by (rule run_updates_firstTokenTime_fresh) (rule fresh)
  have fed: "firstTokenTime (feed_chunks ?fresh calls) =
      (case filter (\<lambda>(c, t1, t2). c \<noteq> []) calls of
         [] \<Rightarrow> None | (c, t1, t2) # _ \<Rightarrow> Some t1)"
    by (rule feed_chunks_firstTokenTime_fresh) (rule fresh)
  have keep: "firstTokenTime ?before \<noteq> None \<longrightarrow>
      firstTokenTime (updateMetrics ?before content now1 now2) = firstTokenTime ?before"
    by (auto simp: updateMetrics_firstTokenTime)
  have keep100: "timeToHundredTokens ?before \<noteq> None \<longrightarrow>
      timeToHundredTokens (updateMetrics ?before content now1 now2)
        = timeToHundredTokens ?before"
    by (simp add: updateMetrics_timeToHundredTokens)
  have set100: "timeToHundredTokens (updateMetrics ?before content now1 now2)
        \<noteq> timeToHundredTokens ?before \<longrightarrow>
      100 \<le> nat \<lceil>real (length (fullResponse ?before @ content)) / 4\<rceil>
      \<and> 100 \<le> tokenCount (updateMetrics ?before content now1 now2)
      \<and> timeToHundredTokens ?before = None
      \<and> timeToHundredTokens (updateMetrics ?before content now1 now2) = Some (now2 - start)"
    by (simp add: updateMetrics_timeToHundredTokens TOKEN_THRESHOLD_FOR_METRICS_def
        estimateTokenCount_def CHARS_PER_TOKEN_def fresh split: if_splits)
  from first fed keep keep100 set100 mono show ?thesis by blast
qed

theorem updateMetrics_sequence_witness:
  "firstTokenTime (run_updates (createStreamMetrics 0) [(replicate 396 CHR ''a'', 1, 2)]) \<noteq> None
   \<and> firstTokenTime (updateMetrics
        (run_updates (createStreamMetrics 0) [(replicate 396 CHR ''a'', 1, 2)]) ''b'' 3 4) = Some 1
   \<and> timeToHundredTokens
        (run_updates (createStreamMetrics 0) [(replicate 396 CHR ''a'', 1, 2)]) = None
   \<and> timeToHundredTokens (updateMetrics
        (run_updates (createStreamMetrics 0) [(replicate 396 CHR ''a'', 1, 2)]) ''b'' 3 4) = Some 4
   \<and> tokenCount (updateMetrics
        (run_updates (createStreamMetrics 0) [(replicate 396 CHR ''a'', 1, 2)]) ''b'' 3 4) = 100
   \<and> timeToHundredTokens
        (run_updates (createStreamMetrics 0) [(replicate 400 CHR ''a'', 1, 2)]) = Some 2
   \<and> timeToHundredTokens (updateMetrics
        (run_updates (createStreamMetrics 0) [(replicate 400 CHR ''a'', 1, 2)]) ''b'' 3 4) = Some 2"
  using updateMetrics_sequence [of 0 "[(replicate 396 CHR ''a'', 1, 2)]" "''b''" 3 4]
    updateMetrics_sequence [of 0 "[(replicate 400 CHR ''a'', 1, 2)]" "''b''" 3 4]
  by (simp add: createStreamMetrics_def updateMetrics_def Let_def estimateTokenCount_def
      CHARS_PER_TOKEN_def TOKEN_THRESHOLD_FOR_METRICS_def)

text \<open>
  C5 as stated fails on "the first non-empty content chunk": \<^const>\<open>updateMetrics\<close> does
  not look at the chunk before it assigns the first-token time, so a first call with the
  empty chunk assigns it.
\<close>

theorem updateMetrics_empty_chunk_counterexample:
  "firstTokenTime (createStreamMetrics 0) = None
   \<and> firstTokenTime (updateMetrics (createStreamMetrics 0) [] 5 6) = Some 5"
  by (simp add: createStreamMetrics_def updateMetrics_def Let_def estimateTokenCount_def
      CHARS_PER_TOKEN_def TOKEN_THRESHOLD_FOR_METRICS_def)

section \<open>The orchestrator on a request with a prompt\<close>

lemma collect_settled_fulfilled:
  "collect_settled ps (map (\<lambda>(i, p). Fulfilled (fst (f i p))) (enumerate n ps))
     = map (\<lambda>(i, p). fst (f i p)) (enumerate n ps)"
  by (induction ps arbitrary: n) (simp_all add: collect_settled_def)

lemma length_collected [simp]: "length (collected w ps) = length ps"
  by (simp add: collected_def)

lemma POST_benchmark_ok:
  assumes "prompt \<noteq> []"
  shows "POST_benchmark w (Body (Some prompt) max_tokens ps) ts =
     (Response 200
        (ResultsBody (js_sort compare_results (collected w (select_providers ps)))
           prompt (case max_tokens of None \<Rightarrow> 256 | Some m \<Rightarrow> if m \<noteq> 0 then m else 256) ts),
      concat (map (\<lambda>(i, p). snd (benchmark_provider w i p))
                (enumerate 0 (select_providers ps))))"
proof -
  have "map (\<lambda>call. Fulfilled (fst call))
          (map (\<lambda>(i, prov). benchmark_provider w i prov) (enumerate 0 (select_providers ps)))
      = map (\<lambda>(i, p). Fulfilled (fst (benchmark_provider w i p)))
          (enumerate 0 (select_providers ps))"
    by (simp add: case_prod_unfold)
  moreover have "map snd
          (map (\<lambda>(i, prov). benchmark_provider w i prov) (enumerate 0 (select_providers ps)))
      = map (\<lambda>(i, p). snd (benchmark_provider w i p)) (enumerate 0 (select_providers ps))"
    by (simp add: case_prod_unfold)
  ultimately show ?thesis
    using assms
    by (simp only: POST_benchmark_def Let_def collect_settled_fulfilled collected_def
        benchmark_request.case option.case if_False)
qed

section \<open>Lines of the event stream\<close>





text \<open>Two more payloads that yield null: \<^verbatim>\<open>null\<close>, where the first property read raises
  and the \<^verbatim>\<open>catch\<close> answers, and an empty content string, which is falsy.\<close>

lemma parseSSELine_null_payload:
  "JSON_parse (drop 6 (js_trim line)) = Some JNull \<Longrightarrow> parseSSELine JSON_parse line = Inr None"
  by (simp add: parseSSELine_def Let_def extract_content_def)

lemma parseSSELine_empty_content:
  "JSON_parse (drop 6 (js_trim line))
     = Some (JObject [(''choices'', JArray [JObject [(''delta'', JObject [(''content'', JString [])])]])])
   \<Longrightarrow> parseSSELine JSON_parse line = Inr None"
  by (simp add: parseSSELine_def Let_def extract_content_def opt_chain_def)

section \<open>The order of the orchestrator's results\<close>

lemma compare_results_le_iff: "compare_results a b \<le> 0 \<longleftrightarrow> result_key a \<le> result_key b"
  by (auto simp: compare_results_def result_key_def less_eq_prod_def)

lemma insert_sorted_insort_key:
  "insert_sorted compare_results x ys = insort_key result_key x ys"
  by (induction ys) (simp_all add: compare_results_le_iff)

lemma js_sort_sort_key: "js_sort compare_results xs = sort_key result_key xs"
proof -
  have "insert_sorted compare_results = insort_key result_key"
    by (intro ext) (rule insert_sorted_insort_key)
  then show ?thesis
    by (simp add: js_sort_def sort_key_def)
qed

lemma result_key_eq_iff:
  "result_key r = result_key a \<longleftrightarrow> has_error r = has_error a \<and> ttft_ms r = ttft_ms a"
  by (auto simp: result_key_def)

lemma mset_js_sort: "mset (js_sort compare_results xs) = mset xs"
  by (simp add: js_sort_sort_key)

lemma length_js_sort: "length (js_sort compare_results xs) = length xs"
  using mset_js_sort [of xs] by (metis size_mset)




text \<open>Any arrangement of the collected list that is ordered by the comparator and keeps
  equal entries in their order is the one \<^const>\<open>js_sort\<close> computes: the result does not
  depend on the sorting algorithm of the engine.\<close>

lemma compare_results_zero_iff:
  "compare_results r a = 0 \<longleftrightarrow> has_error r = has_error a \<and> ttft_ms r = ttft_ms a"
  by (auto simp: compare_results_def)

lemma js_sort_compare_results_unique:
  assumes perm: "mset ys = mset xs"
    and ordered: "\<And>i j. i < j \<Longrightarrow> j < length ys \<Longrightarrow> compare_results (ys ! i) (ys ! j) \<le> 0"
    and stable: "\<And>a. filter (\<lambda>r. compare_results r a = 0) ys
                      = filter (\<lambda>r. compare_results r a = 0) xs"
  shows "js_sort compare_results xs = ys"
  unfolding js_sort_sort_key
proof (rule properties_for_sort_key)
  show "mset ys = mset xs" by (rule perm)
next
  fix k
  have "(\<lambda>x. result_key k = result_key x) = (\<lambda>r. compare_results r k = 0)"
    by (auto simp: compare_results_zero_iff result_key_eq_iff)
  then show "filter (\<lambda>x. result_key k = result_key x) ys
      = filter (\<lambda>x. result_key k = result_key x) xs"
    using stable [of k] by simp
next
  show "sorted (map result_key ys)"
    unfolding sorted_iff_nth_mono_less
    using ordered by (simp add: compare_results_le_iff)
qed

section \<open>The orchestrator's response\<close>

lemma benchmark_provider_unknown:
  "p \<notin> set (object_keys PROVIDER_ENDPOINTS) \<Longrightarrow> error_only p (fst (benchmark_provider w i p))"
  by (auto simp: benchmark_provider_def js_get_def object_keys_def error_only_def failed_result_def
      map_of_eq_None_iff[symmetric] split: option.splits)

lemma benchmark_provider_rejected:
  "js_get PROVIDER_ENDPOINTS p = Own endpoint \<Longrightarrow> fetch w i endpoint = Rejects e \<Longrightarrow>
   error_only p (fst (benchmark_provider w i p))"
  by (cases e) (auto simp: benchmark_provider_def error_only_def failed_result_def)

text \<open>
  C2 (as amended). For every request with a non-empty prompt and a non-empty list of
  requested provider identifiers, whatever the sub-requests come to, the orchestrator
  answers 200 with a results array that has as many entries as the list and holds exactly
  the entries made for the requested identifiers, one for each position of the list. The
  entry made for an
  identifier that is not a known provider is an error-only entry keyed by it, and so is
  the entry made for a known provider whose sub-request raises. (An empty list is
  treated as an absent one and gives one entry per known provider.)
\<close>

theorem POST_benchmark_one_result_per_provider:
  assumes "prompt \<noteq> []" and "requested \<noteq> []"
  shows "response_status
           (fst (POST_benchmark w (Body (Some prompt) max_tokens (Some requested)) ts)) = 200
    \<and> length (response_results
         (fst (POST_benchmark w (Body (Some prompt) max_tokens (Some requested)) ts)))
        = length requested
    \<and> mset (response_results
         (fst (POST_benchmark w (Body (Some prompt) max_tokens (Some requested)) ts)))
        = mset (collected w requested)
    \<and> (i < length requested \<longrightarrow>
         collected w requested ! i = fst (benchmark_provider w i (requested ! i)))
    \<and> (p \<notin> set (object_keys PROVIDER_ENDPOINTS)
        \<longrightarrow> error_only p (fst (benchmark_provider w i p)))
    \<and> (js_get PROVIDER_ENDPOINTS q = Own endpoint \<and> fetch w i endpoint = Rejects e
        \<longrightarrow> error_only q (fst (benchmark_provider w i q)))"
proof -
  have sel: "select_providers (Some requested) = requested"
    using assms(2) by (simp add: select_providers_def)
  have m: "mset (js_sort compare_results (collected w requested)) = mset (collected w requested)"
    by (rule mset_js_sort)
  have l: "length (js_sort compare_results (collected w requested)) = length requested"
    by (simp add: length_js_sort)
  have at: "i < length requested \<longrightarrow>
      collected w requested ! i = fst (benchmark_provider w i (requested ! i))"
    by (simp add: collected_def nth_enumerate_eq)
  show ?thesis
    using m l at benchmark_provider_unknown [of p w i]
      benchmark_provider_rejected [of q endpoint w i e]
    by (simp add: POST_benchmark_ok [OF assms(1)] sel)
qed

theorem POST_benchmark_one_result_per_provider_witness:
  "''hi'' \<noteq> [] \<and> [''groq'', ''nope'', ''cerebras''] \<noteq> []
   \<and> response_status (fst (POST_benchmark example_world
        (Body (Some ''hi'') None (Some [''groq'', ''nope'', ''cerebras''])) ''t'')) = 200
   \<and> length (response_results (fst (POST_benchmark example_world
        (Body (Some ''hi'') None (Some [''groq'', ''nope'', ''cerebras''])) ''t''))) = 3
   \<and> map provider (response_results (fst (POST_benchmark example_world
        (Body (Some ''hi'') None (Some [''groq'', ''nope'', ''cerebras''])) ''t'')))
       = [''cerebras'', ''groq'', ''nope'']
   \<and> (0::nat) < length [''groq'', ''nope'', ''cerebras'']
   \<and> provider (collected example_world [''groq'', ''nope'', ''cerebras''] ! 0) = ''groq''
   \<and> ''nope'' \<notin> set (object_keys PROVIDER_ENDPOINTS)
   \<and> error_only ''nope'' (fst (benchmark_provider example_world 0 ''nope''))
   \<and> js_get PROVIDER_ENDPOINTS ''groq'' = Own ''/api/benchmark/groq''
   \<and> fetch example_world 0 ''/api/benchmark/groq'' = Rejects (ErrorObj ''fetch failed'')
   \<and> error_only ''groq'' (fst (benchmark_provider example_world 0 ''groq''))"
  using POST_benchmark_one_result_per_provider [where prompt = "''hi''"
      and requested = "[''groq'', ''nope'', ''cerebras'']" and w = example_world
      and max_tokens = None and ts = "''t''" and i = 0 and p = "''nope''" and q = "''groq''"
      and endpoint = "''/api/benchmark/groq''" and e = "ErrorObj ''fetch failed''"]
  by (simp add: POST_benchmark_def select_providers_def benchmark_provider_def js_get_def
      PROVIDER_ENDPOINTS_def object_prototype_keys_def object_keys_def collect_settled_def
      js_sort_def compare_results_def has_error_def truthy_str_def failed_result_def
      error_only_def example_world_def collected_def)

text \<open>
  C2 as stated fails for the empty list of requested identifiers: no identifier is
  requested, and the results array has three entries.
\<close>

theorem POST_benchmark_empty_list_counterexample:
  "length (response_results (fst (POST_benchmark example_world
      (Body (Some ''hi'') None (Some [])) ''t''))) = 3
   \<and> length ([] :: string list) = 0"
  by (simp add: POST_benchmark_def select_providers_def benchmark_provider_def js_get_def
      PROVIDER_ENDPOINTS_def object_keys_def collect_settled_def
      js_sort_def compare_results_def has_error_def truthy_str_def failed_result_def
      example_world_def collected_def)

text \<open>A key inherited from \<^verbatim>\<open>Object.prototype\<close> is answered by the \<^verbatim>\<open>catch\<close> branch, with
  no sub-request sent.\<close>

lemma benchmark_provider_inherited_example:
  "benchmark_provider example_world i ''constructor''
     = (failed_result ''constructor'' ''Invalid URL'', [])"
  by (simp add: benchmark_provider_def js_get_def PROVIDER_ENDPOINTS_def
      object_prototype_keys_def example_world_def)

text \<open>
  C8. A request whose body has no prompt field is answered with status 400 and the body
  \<^verbatim>\<open>{error: "prompt is required"}\<close>, and no sub-request to a provider route is sent.
\<close>

theorem POST_benchmark_missing_prompt:
  "POST_benchmark w (Body None max_tokens ps) ts
     = (Response 400 (ErrorBody ''prompt is required''), [])
   \<and> response_status (fst (POST_benchmark w (Body None max_tokens ps) ts)) = 400
   \<and> snd (POST_benchmark w (Body None max_tokens ps) ts) = []"
  by (simp add: POST_benchmark_def)

lemma select_providers_default:
  "select_providers None = [''cerebras'', ''fireworks'', ''groq'']"
  "select_providers (Some []) = [''cerebras'', ''fireworks'', ''groq'']"
  by (simp_all add: select_providers_def object_keys_def PROVIDER_ENDPOINTS_def)

lemma benchmark_provider_known_requests:
  "snd (benchmark_provider w i ''cerebras'') = [''/api/benchmark/cerebras'']"
  "snd (benchmark_provider w i ''fireworks'') = [''/api/benchmark/fireworks'']"
  "snd (benchmark_provider w i ''groq'') = [''/api/benchmark/groq'']"
  by (auto simp: benchmark_provider_def js_get_def PROVIDER_ENDPOINTS_def
      split: fetch_outcome.splits thrown.splits)

text \<open>
  C9. A request whose providers field is the empty array gets the response of the same
  request without the field; with a non-empty prompt that response has three results,
  the entries made for cerebras, fireworks and groq, and the sub-requests sent are those
  to the three provider routes.
\<close>

theorem POST_benchmark_empty_providers:
  "POST_benchmark w (Body prompt max_tokens (Some [])) ts
     = POST_benchmark w (Body prompt max_tokens None) ts
   \<and> (prompt \<noteq> None \<and> prompt \<noteq> Some [] \<longrightarrow>
        response_status (fst (POST_benchmark w (Body prompt max_tokens (Some [])) ts)) = 200
        \<and> length (response_results (fst (POST_benchmark w (Body prompt max_tokens (Some [])) ts))) = 3
        \<and> mset (response_results (fst (POST_benchmark w (Body prompt max_tokens (Some [])) ts)))
            = mset (collected w [''cerebras'', ''fireworks'', ''groq''])
        \<and> snd (POST_benchmark w (Body prompt max_tokens (Some [])) ts)
            = [''/api/benchmark/cerebras'', ''/api/benchmark/fireworks'', ''/api/benchmark/groq''])"
proof -
  have same: "POST_benchmark w (Body prompt max_tokens (Some [])) ts
      = POST_benchmark w (Body prompt max_tokens None) ts"
    by (simp add: POST_benchmark_def select_providers_default split: option.splits)
  have ok: "prompt \<noteq> None \<and> prompt \<noteq> Some [] \<longrightarrow>
        response_status (fst (POST_benchmark w (Body prompt max_tokens (Some [])) ts)) = 200
        \<and> length (response_results (fst (POST_benchmark w (Body prompt max_tokens (Some [])) ts))) = 3
        \<and> mset (response_results (fst (POST_benchmark w (Body prompt max_tokens (Some [])) ts)))
            = mset (collected w [''cerebras'', ''fireworks'', ''groq''])
        \<and> snd (POST_benchmark w (Body prompt max_tokens (Some [])) ts)
            = [''/api/benchmark/cerebras'', ''/api/benchmark/fireworks'', ''/api/benchmark/groq'']"
  proof (intro impI)
    assume "prompt \<noteq> None \<and> prompt \<noteq> Some []"
    then obtain p where p: "prompt = Some p" "p \<noteq> []" by (cases prompt) auto
    show "response_status (fst (POST_benchmark w (Body prompt max_tokens (Some [])) ts)) = 200
        \<and> length (response_results (fst (POST_benchmark w (Body prompt max_tokens (Some [])) ts))) = 3
        \<and> mset (response_results (fst (POST_benchmark w (Body prompt max_tokens (Some [])) ts)))
            = mset (collected w [''cerebras'', ''fireworks'', ''groq''])
        \<and> snd (POST_benchmark w (Body prompt max_tokens (Some [])) ts)
            = [''/api/benchmark/cerebras'', ''/api/benchmark/fireworks'', ''/api/benchmark/groq'']"
      unfolding p(1) POST_benchmark_ok [OF p(2)] select_providers_default
      by (simp add: mset_js_sort length_js_sort benchmark_provider_known_requests)
  qed
  from same ok show ?thesis by blast
qed

theorem POST_benchmark_empty_providers_witness:
  "Some ''hi'' \<noteq> (None :: string option) \<and> Some ''hi'' \<noteq> Some []
   \<and> POST_benchmark example_world (Body (Some ''hi'') None (Some [])) ''t''
       = POST_benchmark example_world (Body (Some ''hi'') None None) ''t''
   \<and> length (response_results (fst (POST_benchmark example_world
        (Body (Some ''hi'') None (Some [])) ''t''))) = 3
   \<and> map provider (response_results (fst (POST_benchmark example_world
        (Body (Some ''hi'') None (Some [])) ''t''))) = [''cerebras'', ''fireworks'', ''groq'']
   \<and> snd (POST_benchmark example_world (Body (Some ''hi'') None (Some [])) ''t'')
       = [''/api/benchmark/cerebras'', ''/api/benchmark/fireworks'', ''/api/benchmark/groq'']"
  using POST_benchmark_empty_providers [of example_world "Some ''hi''" None "''t''"]
  by (simp add: POST_benchmark_def select_providers_def benchmark_provider_def js_get_def
      PROVIDER_ENDPOINTS_def object_keys_def collect_settled_def
      js_sort_def compare_results_def has_error_def truthy_str_def failed_result_def
      example_world_def collected_def)

section \<open>The event stream of the agent race\<close>

lemma length_STEPS [simp]: "length STEPS = 5"
  by (simp add: STEPS_def)

lemma step_prompt_call_at:
  "callProvider i (if i = 0 then snd (STEPS ! i) company
                   else snd (STEPS ! i) (previous_output callProvider company i))
     = call_at callProvider company i"
  by (cases i) (simp_all add: call_at_def)

lemma run_steps_step_numbers:
  "run_steps cp company steps i prev t = (sent, total', flag) \<Longrightarrow> op \<in> set sent \<Longrightarrow>
   \<not> is_completion op \<and> op \<noteq> Close \<and> (\<exists>s. step_number op = Some s \<and> i < s \<and> s \<le> i + length steps)"
proof (induction steps arbitrary: i prev t sent total' flag)
  case Nil
  then show ?case by simp
next
  case (Cons step steps)
  obtain name prompt where step: "step = (name, prompt)" by (cases step)
  show ?case
  proof (cases "cp i (if i = 0 then prompt company else prompt prev)")
    case (Throws err)
    with Cons.prems step show ?thesis by auto
  next
    case (Returns content elapsed)
    obtain sent' t' f' where rest:
      "run_steps cp company steps (i + 1) content (t + js_round elapsed) = (sent', t', f')"
      by (cases "run_steps cp company steps (i + 1) content (t + js_round elapsed)")
    from Cons.prems(1) step Returns rest have sent:
      "sent = Enqueue (StepRunning (i + 1) name)
         # Enqueue (StepComplete (i + 1) name (js_round elapsed) (output_preview content)) # sent'"
      by simp
    show ?thesis
    proof (cases "op \<in> set sent'")
      case True
      from Cons.IH [OF rest True] show ?thesis by auto
    next
      case False
      with Cons.prems(2) sent show ?thesis by auto
    qed
  qed
qed

lemma run_steps_Cons:
  "run_steps cp company (step # steps) i prev t =
     (case cp i (if i = 0 then snd step company else snd step prev) of
        Returns content elapsed \<Rightarrow>
          (case run_steps cp company steps (i + 1) content (t + js_round elapsed) of
             (sent, finalLatency, hasError) \<Rightarrow>
               (Enqueue (StepRunning (i + 1) (fst step))
                  # Enqueue (StepComplete (i + 1) (fst step) (js_round elapsed)
                       (output_preview content))
                  # sent,
                finalLatency, hasError))
      | Throws err \<Rightarrow>
          ([Enqueue (StepRunning (i + 1) (fst step)),
            Enqueue (StepError (i + 1) (fst step) (error_text err))],
           t, True))"
  by (cases step) (auto split: call_outcome.splits)

lemma run_steps_failure:
  assumes "k < length STEPS"
    and "\<forall>j<k. \<exists>content elapsed. call_at cp company j = Returns content elapsed"
    and "call_at cp company k = Throws err"
  shows "i \<le> k \<Longrightarrow>
     \<exists>total'. run_steps cp company (drop i STEPS) i (previous_output cp company i) t
       = (concat (map (step_events cp company) [i..<k])
            @ [Enqueue (StepRunning (k + 1) (fst (STEPS ! k))),
               Enqueue (StepError (k + 1) (fst (STEPS ! k)) (error_text err))],
          total', True)"
proof (induction "k - i" arbitrary: i t)
  case 0
  then have ik: "i = k" by simp
  have d: "drop k STEPS = STEPS ! k # drop (Suc k) STEPS"
    using assms(1) by (simp add: Cons_nth_drop_Suc)
  show ?case
    unfolding ik d run_steps_Cons step_prompt_call_at
    by (simp add: assms(3))
next
  case (Suc n)
  then have ik: "i < k" by simp
  then have il: "i < length STEPS" using assms(1) by simp
  have d: "drop i STEPS = STEPS ! i # drop (Suc i) STEPS"
    using il by (simp add: Cons_nth_drop_Suc)
  from assms(2) ik obtain content elapsed where
    ret: "call_at cp company i = Returns content elapsed" by blast
  then have prev: "previous_output cp company (Suc i) = content"
    by (simp add: call_at_def)
  have "n = k - Suc i" "Suc i \<le> k" using Suc.hyps(2) ik by simp_all
  from Suc.hyps(1) [OF this, of "t + js_round elapsed"] obtain total' where
    rest: "run_steps cp company (drop (Suc i) STEPS) (Suc i) content (t + js_round elapsed)
       = (concat (map (step_events cp company) [Suc i..<k])
            @ [Enqueue (StepRunning (k + 1) (fst (STEPS ! k))),
               Enqueue (StepError (k + 1) (fst (STEPS ! k)) (error_text err))],
          total', True)"
    unfolding prev by blast
  have upt: "[i..<k] = i # [Suc i..<k]" using ik by (simp add: upt_conv_Cons)
  show ?case
    unfolding d upt run_steps_Cons step_prompt_call_at
    by (simp add: ret rest step_events_def)
qed

lemma race_stream_shape:
  "\<exists>sent totalLatency hasError.
     race_stream cp company = sent @ [Enqueue (StreamComplete totalLatency hasError), Close]
     \<and> Close \<notin> set sent \<and> (\<forall>op \<in> set sent. \<not> is_completion op)"
proof -
  obtain sent total' flag where r:
    "run_steps cp company STEPS 0 company 0 = (sent, total', flag)"
    by (cases "run_steps cp company STEPS 0 company 0")
  have "Close \<notin> set sent" "\<forall>op \<in> set sent. \<not> is_completion op"
    using run_steps_step_numbers [OF r] by blast+
  then show ?thesis
    by (auto simp: race_stream_def r)
qed

lemma run_steps_success:
  assumes "\<forall>j<length STEPS. \<exists>content elapsed. call_at cp company j = Returns content elapsed"
  shows "i \<le> length STEPS \<Longrightarrow>
     \<exists>total'. run_steps cp company (drop i STEPS) i (previous_output cp company i) t
       = (concat (map (step_events cp company) [i..<length STEPS]), total', False)"
proof (induction "length STEPS - i" arbitrary: i t)
  case 0
  then show ?case by simp
next
  case (Suc n)
  then have il: "i < length STEPS" by simp
  have d: "drop i STEPS = STEPS ! i # drop (Suc i) STEPS"
    using il by (simp add: Cons_nth_drop_Suc)
  from assms il obtain content elapsed where
    ret: "call_at cp company i = Returns content elapsed" by blast
  then have prev: "previous_output cp company (Suc i) = content"
    by (simp add: call_at_def)
  have "n = length STEPS - Suc i" "Suc i \<le> length STEPS" using Suc.hyps(2) il by simp_all
  from Suc.hyps(1) [OF this, of "t + js_round elapsed"] obtain total' where
    rest: "run_steps cp company (drop (Suc i) STEPS) (Suc i) content (t + js_round elapsed)
       = (concat (map (step_events cp company) [Suc i..<length STEPS]), total', False)"
    unfolding prev by blast
  have upt: "[i..<length STEPS] = i # [Suc i..<length STEPS]"
    using il by (simp add: upt_conv_Cons)
  show ?case
    unfolding d upt run_steps_Cons step_prompt_call_at
    by (simp add: ret rest step_events_def)
qed

lemma race_stream_success:
  assumes "\<forall>j<length STEPS. \<exists>content elapsed. call_at cp company j = Returns content elapsed"
  shows "\<exists>totalLatency. race_stream cp company =
     concat (map (step_events cp company) [0..<length STEPS])
       @ [Enqueue (StreamComplete totalLatency False), Close]"
  using run_steps_success [OF assms, of 0 0]
  by (auto simp: race_stream_def)

lemma step_events_step_number:
  "op \<in> set (step_events cp company j) \<Longrightarrow> step_number op = Some (j + 1)"
  by (auto simp: step_events_def split: call_outcome.splits)

lemma step_events_returned:
  "call_at cp company j = Returns content elapsed \<Longrightarrow>
   Enqueue (StepError s n m) \<notin> set (step_events cp company j)"
  by (simp add: step_events_def)

text \<open>
  C7. Take a run of the agent race in which the step with index \<open>k\<close> (step number
  \<open>k + 1\<close>) is the first whose provider call raises. The operations on the output channel
  are then: the running and complete messages of the steps before it, the running and the
  error message of that step, one completion message with \<^verbatim>\<open>has_error: true\<close>, and the
  closing of the channel. So no message is about a later step, the only error message is
  that step's, there is exactly one completion message, and the channel is closed exactly
  once, after it. In every run, failed or not, the stream ends with one completion message
  followed by the one closing of the channel.
\<close>

theorem race_stream_first_failure:
  assumes "k < length STEPS"
    and "\<forall>j<k. \<exists>content elapsed. call_at cp company j = Returns content elapsed"
    and "call_at cp company k = Throws err"
  shows "(\<exists>totalLatency. race_stream cp company =
            concat (map (step_events cp company) [0..<k])
            @ [Enqueue (StepRunning (k + 1) (fst (STEPS ! k))),
               Enqueue (StepError (k + 1) (fst (STEPS ! k)) (error_text err)),
               Enqueue (StreamComplete totalLatency True), Close])
     \<and> (\<forall>op \<in> set (race_stream cp company). \<forall>s. step_number op = Some s \<longrightarrow> s \<le> k + 1)
     \<and> (\<forall>s n m. Enqueue (StepError s n m) \<in> set (race_stream cp company) \<longrightarrow> s = k + 1)
     \<and> length (filter is_completion (race_stream cp company)) = 1
     \<and> length (filter (\<lambda>op. op = Close) (race_stream cp company)) = 1
     \<and> (\<forall>calls c. \<exists>sent totalLatency hasError.
           race_stream calls c = sent @ [Enqueue (StreamComplete totalLatency hasError), Close]
           \<and> Close \<notin> set sent \<and> (\<forall>op \<in> set sent. \<not> is_completion op))"
proof -
  let ?pre = "concat (map (step_events cp company) [0..<k])"
  from run_steps_failure [OF assms, of 0 0] obtain total' where
    run: "run_steps cp company STEPS 0 company 0
       = (?pre @ [Enqueue (StepRunning (k + 1) (fst (STEPS ! k))),
                  Enqueue (StepError (k + 1) (fst (STEPS ! k)) (error_text err))],
          total', True)"
    by auto
  then have shape: "race_stream cp company =
      ?pre @ [Enqueue (StepRunning (k + 1) (fst (STEPS ! k))),
              Enqueue (StepError (k + 1) (fst (STEPS ! k)) (error_text err)),
              Enqueue (StreamComplete total' True), Close]"
    by (simp add: race_stream_def)
  have pre_num: "\<exists>j<k. step_number op = Some (j + 1)" if "op \<in> set ?pre" for op
    using that step_events_step_number by fastforce
  have pre_err: "Enqueue (StepError s n m) \<notin> set ?pre" for s n m
  proof
    assume "Enqueue (StepError s n m) \<in> set ?pre"
    then obtain j where j: "j < k" "Enqueue (StepError s n m) \<in> set (step_events cp company j)"
      by auto
    from assms(2) j(1) obtain content elapsed where
      "call_at cp company j = Returns content elapsed" by blast
    from step_events_returned [OF this] j(2) show False by blast
  qed
  have pre_plain: "\<not> is_completion op \<and> op \<noteq> Close" if "op \<in> set ?pre" for op
    using pre_num [OF that] by (cases op rule: step_number.cases) auto
  have numbers: "\<forall>op \<in> set (race_stream cp company). \<forall>s. step_number op = Some s \<longrightarrow> s \<le> k + 1"
    unfolding shape using pre_num by fastforce
  have errors: "\<forall>s n m. Enqueue (StepError s n m) \<in> set (race_stream cp company) \<longrightarrow> s = k + 1"
    unfolding shape using pre_err by auto
  have f1: "filter is_completion ?pre = []" and f2: "filter (\<lambda>op. op = Close) ?pre = []"
    using pre_plain by (auto simp: filter_empty_conv)
  have once: "length (filter is_completion (race_stream cp company)) = 1"
    "length (filter (\<lambda>op. op = Close) (race_stream cp company)) = 1"
    unfolding shape by (simp_all add: f1 f2)
  from shape numbers errors once race_stream_shape show ?thesis
    by blast
qed

theorem race_stream_first_failure_witness:
  "(1::nat) < length STEPS
   \<and> call_at example_calls ''Acme'' 0 = Returns ''Acme sells anvils.'' (1204 / 10)
   \<and> call_at example_calls ''Acme'' 1 = Throws (ErrorObj ''GROQ_API_KEY not configured'')
   \<and> race_stream example_calls ''Acme'' =
       [Enqueue (StepRunning 1 ''Research''),
        Enqueue (StepComplete 1 ''Research'' 120 ''Acme sells anvils.''),
        Enqueue (StepRunning 2 ''Summarize''),
        Enqueue (StepError 2 ''Summarize'' ''GROQ_API_KEY not configured''),
        Enqueue (StreamComplete 120 True), Close]
   \<and> (0::nat) < length STEPS
   \<and> call_at (\<lambda>i prompt. Throws (NonError ''timeout'')) ''Acme'' 0 = Throws (NonError ''timeout'')
   \<and> race_stream (\<lambda>i prompt. Throws (NonError ''timeout'')) ''Acme'' =
       [Enqueue (StepRunning 1 ''Research''),
        Enqueue (StepError 1 ''Research'' ''timeout''),
        Enqueue (StreamComplete 0 True), Close]"
  using race_stream_first_failure [of 1 example_calls "''Acme''"
      "ErrorObj ''GROQ_API_KEY not configured''"]
    race_stream_first_failure [of 0 "\<lambda>i prompt. Throws (NonError ''timeout'')" "''Acme''"
      "NonError ''timeout''"]
  by (simp add: race_stream_def STEPS_def example_calls_def js_round_def output_preview_def
      OUTPUT_PREVIEW_LENGTH_def error_text_def call_at_def)

text \<open>The route handler streams these operations for a known provider and a company.\<close>

lemma POST_agent_race_streams:
  "prov \<in> set [''cerebras'', ''groq'', ''fireworks''] \<Longrightarrow> company \<noteq> [] \<Longrightarrow>
   POST_agent_race cp (Some prov) (Some company) = RaceStream (race_stream cp company)"
  by (auto simp: POST_agent_race_def)

section \<open>The mock route\<close>

lemma mset_insert_sorted: "mset (insert_sorted cmp x ys) = add_mset x (mset ys)"
  by (induction ys) simp_all

lemma mset_js_sort_any: "mset (js_sort cmp xs) = mset xs"
  unfolding js_sort_def by (induction xs) (simp_all add: mset_insert_sorted)

lemma mock_result_provider: "provider (fst (mock_result rng n p d)) = p"
  by (simp add: mock_result_def Let_def)

lemma mock_loop_providers:
  "map provider (mock_loop rng n ps) = filter (\<lambda>p. js_get MOCK_BENCHMARKS p \<noteq> Missing) ps"
proof (induction ps arbitrary: n)
  case Nil
  then show ?case by simp
next
  case (Cons p ps)
  show ?case
  proof (cases "js_get MOCK_BENCHMARKS p")
    case (Own fixture)
    obtain r n' where "mock_result rng n p (Own fixture) = (r, n')"
      by (cases "mock_result rng n p (Own fixture)")
    then show ?thesis
      using Own Cons.IH [of n'] mock_result_provider [of rng n p "Own fixture"] by simp
  next
    case Inherited
    obtain r n' where "mock_result rng n p Inherited = (r, n')"
      by (cases "mock_result rng n p Inherited")
    then show ?thesis
      using Inherited Cons.IH [of n'] mock_result_provider [of rng n p Inherited] by simp
  next
    case Missing
    then show ?thesis using Cons.IH [of n] by simp
  qed
qed

text \<open>The providers of the mock results are the requested identifiers for which the
  lookup in the fixture table finds something, each as often as it was requested; an
  identifier for which it finds nothing leaves no entry.\<close>

lemma POST_mock_providers:
  "POST_mock rng (MockBody (Some (p # ps))) ts = Response 200 (MockResults results flag ts') \<Longrightarrow>
   mset (map provider results)
     = mset (filter (\<lambda>q. js_get MOCK_BENCHMARKS q \<noteq> Missing) (p # ps))"
proof -
  assume "POST_mock rng (MockBody (Some (p # ps))) ts = Response 200 (MockResults results flag ts')"
  then have "results = js_sort compare_ttft (mock_loop rng 0 (p # ps))"
    by (simp add: POST_mock_def Let_def)
  then have "mset results = mset (mock_loop rng 0 (p # ps))"
    by (simp add: mset_js_sort_any)
  then have "mset (map provider results) = mset (map provider (mock_loop rng 0 (p # ps)))"
    by (metis mset_map)
  then show ?thesis
    by (simp only: mock_loop_providers)
qed

lemma POST_mock_skips_missing_example:
  "POST_mock rng (MockBody (Some [''nope''])) ts = Response 200 (MockResults [] True ts)"
  by (simp add: POST_mock_def js_get_def MOCK_BENCHMARKS_def object_prototype_keys_def js_sort_def)

text \<open>
  C10 (the code departs from it). The identifier \<^verbatim>\<open>constructor\<close> has no mock fixture, and
  the claim has it skipped. The lookup \<^verbatim>\<open>MOCK_BENCHMARKS[providerId]\<close> finds the function
  every object literal inherits under that name, \<^verbatim>\<open>!mockData\<close> is false, and the route
  answers with one entry for it, whose numbers are all \<^verbatim>\<open>NaN\<close>.
\<close>

theorem POST_mock_inherited_key_not_skipped:
  "map_of MOCK_BENCHMARKS ''constructor'' = None
   \<and> POST_mock rng (MockBody (Some [''constructor''])) ts =
       Response 200
         (MockResults
            [\<lparr>provider = ''constructor'', model = ''unknown'', ttft_ms = NaN,
              tokens_per_second = NaN, total_latency_ms = NaN, token_count = NaN,
              time_to_100_tokens_ms = None, throughput_first_100 = None, error = None\<rparr>]
            True ts)"
  by (simp add: POST_mock_def js_get_def MOCK_BENCHMARKS_def object_prototype_keys_def js_sort_def
      mock_result_def model_of_def providers_def fixture_truthy_def fixture_number_def
      addVariance_def)

lemma POST_mock_fixture_example:
  "POST_mock (\<lambda>n. 1 / 2) (MockBody (Some [''nope'', ''cerebras''])) ts =
     Response 200
       (MockResults
          [\<lparr>provider = ''cerebras'', model = ''llama-3.3-70b'', ttft_ms = Num 52,
            tokens_per_second = Num (21563 / 10), total_latency_ms = Num 127,
            token_count = Num 274, time_to_100_tokens_ms = Some (Num 98),
            throughput_first_100 = Some (Num (10204 / 10)), error = None\<rparr>]
          True ts)"
  by (simp add: POST_mock_def js_get_def MOCK_BENCHMARKS_def object_prototype_keys_def js_sort_def
      mock_result_def model_of_def providers_def fixture_truthy_def fixture_number_def
      addVariance_def roundToOneDecimal_def js_round_def TTFT_VARIANCE_PERCENT_def
      TPS_VARIANCE_PERCENT_def LATENCY_VARIANCE_PERCENT_def TOKEN_COUNT_VARIANCE_def)

end
